theory Spec2Isabelle
  imports Complex_Main
begin

section \<open>Python and NumPy values used by \<^verbatim>\<open>control/obc.py\<close>\<close>

text \<open>
  Floating-point numbers are modelled by the reals, so rounding is abstracted away.
  Bound vectors may hold \<^verbatim>\<open>-np.inf\<close> and \<^verbatim>\<open>np.inf\<close>; the module only
  stores and stacks them, so they get a type of their own.
\<close>

datatype exn =
    TypeError string
  | ValueError string
  | IndexError string
  | UnboundLocalError string
  | AttributeError string

datatype bound = NegInf | Num real | PosInf

type_synonym vec = "real list"

text \<open>
  A two-dimensional array of shape \<open>(length (rows a), ncols a)\<close>, kept as its list of
  rows; every row of an array has length \<open>ncols a\<close>.
\<close>

record ndarray2 =
  ncols :: nat
  rows :: "real list list"

definition shape0 :: "ndarray2 \<Rightarrow> nat" where
  "shape0 a = length (rows a)"

definition bind_exn :: "exn + 'a \<Rightarrow> ('a \<Rightarrow> exn + 'b) \<Rightarrow> exn + 'b" where
  "bind_exn m f = (case m of Inl e \<Rightarrow> Inl e | Inr v \<Rightarrow> f v)"

text \<open>\<^verbatim>\<open>np.hstack\<close> of a list of one-dimensional arrays; the empty list is refused.\<close>

definition hstack :: "'a list list \<Rightarrow> exn + 'a list" where
  "hstack arrs =
     (if arrs = [] then Inl (ValueError ''need at least one array to concatenate'')
      else Inr (concat arrs))"

text \<open>\<^verbatim>\<open>np.hstack\<close> of two-dimensional arrays: they are joined along axis 1.\<close>

definition hstack2 :: "ndarray2 list \<Rightarrow> exn + ndarray2" where
  "hstack2 arrs =
     (if arrs = [] then Inl (ValueError ''need at least one array to concatenate'')
      else if list_all (\<lambda>a. shape0 a = shape0 (hd arrs)) arrs
      then Inr \<lparr>ncols = sum_list (map ncols arrs),
                rows = map (\<lambda>j. concat (map (\<lambda>a. rows a ! j) arrs)) [0..<shape0 (hd arrs)]\<rparr>
      else Inl (ValueError ''all the input array dimensions except for the concatenation axis must match exactly''))"

definition zeros :: "nat \<times> nat \<Rightarrow> ndarray2" where
  "zeros shape = (case shape of (m, n) \<Rightarrow> \<lparr>ncols = n, rows = replicate m (replicate n 0)\<rparr>)"

definition zeros1 :: "nat \<Rightarrow> vec" where
  "zeros1 n = replicate n 0"

definition full :: "nat \<Rightarrow> 'a \<Rightarrow> 'a list" where
  "full n v = replicate n v"

text \<open>\<^verbatim>\<open>v.reshape((m, n))\<close> of a flat vector, in row-major order.\<close>

definition reshape :: "vec \<Rightarrow> nat \<times> nat \<Rightarrow> exn + ndarray2" where
  "reshape v shape =
     (case shape of (m, n) \<Rightarrow>
        if length v = m * n
        then Inr \<lparr>ncols = n, rows = map (\<lambda>j. take n (drop (j * n) v)) [0..<m]\<rparr>
        else Inl (ValueError ''cannot reshape array''))"

text \<open>\<^verbatim>\<open>a[:, i]\<close> for a natural index, and \<^verbatim>\<open>a[:, -1]\<close>.\<close>

definition column :: "ndarray2 \<Rightarrow> nat \<Rightarrow> exn + vec" where
  "column a i =
     (if i < ncols a then Inr (map (\<lambda>r. r ! i) (rows a))
      else Inl (IndexError ''index is out of bounds for axis 1''))"

definition last_column :: "ndarray2 \<Rightarrow> exn + vec" where
  "last_column a =
     (if ncols a = 0 then Inl (IndexError ''index -1 is out of bounds for axis 1'')
      else column a (ncols a - 1))"

text \<open>\<^verbatim>\<open>a.transpose()\<close> and \<^verbatim>\<open>a[0]\<close>.\<close>

definition ndarray_transpose :: "ndarray2 \<Rightarrow> ndarray2" where
  "ndarray_transpose a =
     \<lparr>ncols = shape0 a, rows = map (\<lambda>i. map (\<lambda>r. r ! i) (rows a)) [0..<ncols a]\<rparr>"

definition getitem0 :: "ndarray2 \<Rightarrow> exn + vec" where
  "getitem0 a =
     (case rows a of [] \<Rightarrow> Inl (IndexError ''index 0 is out of bounds for axis 0'')
      | r # _ \<Rightarrow> Inr r)"

text \<open>
  \<^verbatim>\<open>np.dot(a, v)\<close> and \<^verbatim>\<open>a @ v\<close> of a matrix and a vector: the inner dimensions
  have to agree.
\<close>

definition inner :: "vec \<Rightarrow> vec \<Rightarrow> real" where
  "inner r v = sum_list (map2 (*) r v)"

definition dot :: "ndarray2 \<Rightarrow> vec \<Rightarrow> exn + vec" where
  "dot a v =
     (if ncols a = length v then Inr (map (\<lambda>r. inner r v) (rows a))
      else Inl (ValueError ''shapes not aligned''))"

section \<open>Plant, polytope and constraint descriptors\<close>

text \<open>
  Modelled from the spec: \<^verbatim>\<open>ct.input_output_response\<close> and the plant's
  \<^verbatim>\<open>_out\<close> map live outside \<^verbatim>\<open>obc.py\<close>. The plant carries them as the
  fields \<open>simulate\<close> (time grid, input trajectory, initial state to state
  trajectory, which may raise) and \<open>sys_out\<close> (time, state, input to output).
\<close>

record plant =
  ninputs :: nat
  nstates :: nat
  simulate :: "real list \<Rightarrow> ndarray2 \<Rightarrow> vec \<Rightarrow> exn + ndarray2"
  sys_out :: "real \<Rightarrow> vec \<Rightarrow> vec \<Rightarrow> vec"

record polytope =
  poly_A :: ndarray2
  poly_b :: "bound list"

text \<open>
  A descriptor is the Python tuple \<^verbatim>\<open>(type, fun, lb, ub)\<close>. The tag is compared
  with \<^verbatim>\<open>opt.LinearConstraint\<close> and \<^verbatim>\<open>opt.NonlinearConstraint\<close>; any other
  object is an \<open>OtherType\<close>, carrying its printed form.
\<close>

datatype constraint_type = LinearConstraint | NonlinearConstraint | OtherType string

text \<open>
  The second component is a matrix or a callable; a callable may raise, as the one that
  \<^verbatim>\<open>output_poly_constraint\<close> builds does on a dimension mismatch.
\<close>

datatype evaluator = Matrix ndarray2 | Callable "vec \<Rightarrow> exn + vec"

type_synonym constraint = "constraint_type \<times> evaluator \<times> bound list \<times> bound list"

definition c_type :: "constraint \<Rightarrow> constraint_type" where
  "c_type c = fst c"

definition c_fun :: "constraint \<Rightarrow> evaluator" where
  "c_fun c = fst (snd c)"

definition c_lb :: "constraint \<Rightarrow> bound list" where
  "c_lb c = fst (snd (snd c))"

definition c_ub :: "constraint \<Rightarrow> bound list" where
  "c_ub c = snd (snd (snd c))"

fun str :: "constraint_type \<Rightarrow> string" where
  "str LinearConstraint = ''<class scipy.optimize._constraints.LinearConstraint>''"
| "str NonlinearConstraint = ''<class scipy.optimize._constraints.NonlinearConstraint>''"
| "str (OtherType name) = name"

section \<open>Constraint and cost factories\<close>

definition state_poly_constraint :: "plant \<Rightarrow> polytope \<Rightarrow> exn + constraint" where
  "state_poly_constraint sys polytope =
     bind_exn (hstack2 [poly_A polytope, zeros (shape0 (poly_A polytope), ninputs sys)])
       (\<lambda>m. Inr (LinearConstraint, Matrix m,
                 full (shape0 (poly_A polytope)) NegInf, poly_b polytope))"

definition input_poly_constraint :: "plant \<Rightarrow> polytope \<Rightarrow> exn + constraint" where
  "input_poly_constraint sys polytope =
     bind_exn (hstack2 [zeros (shape0 (poly_A polytope), nstates sys), poly_A polytope])
       (\<lambda>m. Inr (LinearConstraint, Matrix m,
                 full (shape0 (poly_A polytope)) NegInf, poly_b polytope))"

definition evaluate_output_constraint :: "plant \<Rightarrow> polytope \<Rightarrow> vec \<Rightarrow> exn + vec" where
  "evaluate_output_constraint sys polytope x =
     (let states = take (nstates sys) x;
          inputs = drop (nstates sys) x;
          outputs = sys_out sys 0 states inputs
      in dot (poly_A polytope) outputs)"

definition output_poly_constraint :: "plant \<Rightarrow> polytope \<Rightarrow> constraint" where
  "output_poly_constraint sys polytope =
     (NonlinearConstraint, Callable (evaluate_output_constraint sys polytope),
      full (shape0 (poly_A polytope)) NegInf, poly_b polytope)"

section \<open>The optimal control problem\<close>

text \<open>
  The field \<open>constraints\<close> is the \<^verbatim>\<open>NonlinearConstraint\<close> object built by the
  initializer; its function is the bound method \<^verbatim>\<open>self.constraint_function\<close>, so
  the record keeps the two bound vectors. The attribute \<^verbatim>\<open>self.x\<close> does not exist
  until \<^verbatim>\<open>compute_trajectory\<close> has run; it is the field \<open>self_x\<close>.
\<close>

record OptimalControlProblem =
  system :: plant
  time_vector :: "real list"
  integral_cost :: "vec \<Rightarrow> vec \<Rightarrow> real"
  trajectory_constraints :: "constraint list"
  terminal_cost :: "(vec \<Rightarrow> vec \<Rightarrow> real) option"
  terminal_constraints :: "constraint list"
  constraint_lb :: "bound list"
  constraint_ub :: "bound list"
  constraints :: "bound list \<times> bound list"
  initial_guess :: vec
  self_x :: "vec option"

subsection \<open>Construction\<close>

text \<open>The loop \<^verbatim>\<open>for constraint in ...: constraint_lb.append(lb); constraint_ub.append(ub)\<close>.\<close>

fun stack_bounds ::
  "constraint list \<Rightarrow> bound list list \<times> bound list list \<Rightarrow> bound list list \<times> bound list list"
where
  "stack_bounds [] (lbs, ubs) = (lbs, ubs)"
| "stack_bounds ((ctype, cfun, lb, ub) # cs) (lbs, ubs) =
     stack_bounds cs (lbs @ [lb], ubs @ [ub])"

text \<open>The loop \<^verbatim>\<open>for time in self.time_vector\<close> around it.\<close>

fun stack_time ::
  "real list \<Rightarrow> constraint list \<Rightarrow> bound list list \<times> bound list list
     \<Rightarrow> bound list list \<times> bound list list"
where
  "stack_time [] cs acc = acc"
| "stack_time (t # ts) cs acc = stack_time ts cs (stack_bounds cs acc)"

definition init ::
  "plant \<Rightarrow> real list \<Rightarrow> (vec \<Rightarrow> vec \<Rightarrow> real) \<Rightarrow> constraint list
     \<Rightarrow> (vec \<Rightarrow> vec \<Rightarrow> real) option \<Rightarrow> constraint list \<Rightarrow> exn + OptimalControlProblem"
where
  "init sys time integral_cost' trajectory_constraints' terminal_cost' terminal_constraints' =
     (case stack_bounds terminal_constraints'
             (stack_time time trajectory_constraints' ([], [])) of
        (lbs, ubs) \<Rightarrow>
          bind_exn (hstack lbs) (\<lambda>lb.
          bind_exn (hstack ubs) (\<lambda>ub.
            Inr \<lparr>system = sys, time_vector = time, integral_cost = integral_cost',
                 trajectory_constraints = trajectory_constraints',
                 terminal_cost = terminal_cost',
                 terminal_constraints = terminal_constraints',
                 constraint_lb = lb, constraint_ub = ub, constraints = (lb, ub),
                 initial_guess = zeros1 (ninputs sys * length time),
                 self_x = None\<rparr>)))"

subsection \<open>Cost evaluation\<close>

text \<open>The loop \<^verbatim>\<open>for i, time in enumerate(self.time_vector): cost += ...\<close>.\<close>

fun cost_loop ::
  "(nat \<times> real) list \<Rightarrow> (vec \<Rightarrow> vec \<Rightarrow> real) \<Rightarrow> ndarray2 \<Rightarrow> ndarray2 \<Rightarrow> real \<Rightarrow> exn + real"
where
  "cost_loop [] L states inputs cost = Inr cost"
| "cost_loop ((i, t) # its) L states inputs cost =
     (case column states i of Inl e \<Rightarrow> Inl e
      | Inr xi \<Rightarrow>
         (case column inputs i of Inl e \<Rightarrow> Inl e
          | Inr ui \<Rightarrow> cost_loop its L states inputs (cost + L xi ui)))"

definition cost_function :: "OptimalControlProblem \<Rightarrow> vec \<Rightarrow> exn + real" where
  "cost_function self inputs =
     (case self_x self of
        None \<Rightarrow> Inl (AttributeError ''x'')
      | Some x \<Rightarrow>
          bind_exn (reshape inputs (ninputs (system self), length (time_vector self)))
            (\<lambda>inputs.
          bind_exn (simulate (system self) (time_vector self) inputs x) (\<lambda>states.
          bind_exn (cost_loop (enumerate 0 (time_vector self)) (integral_cost self)
                      states inputs 0) (\<lambda>cost.
            case terminal_cost self of
              None \<Rightarrow> Inr cost
            | Some T \<Rightarrow>
                bind_exn (last_column states) (\<lambda>xN.
                bind_exn (last_column inputs) (\<lambda>uN. Inr (cost + T xN uN)))))))"

subsection \<open>Constraint evaluation\<close>

text \<open>
  \<^verbatim>\<open>np.hstack([states[:,i], inputs[:,i]])\<close>. The loop variable \<^verbatim>\<open>i\<close> is unbound
  until the time loop has run once, hence the option.
\<close>

definition point :: "ndarray2 \<Rightarrow> ndarray2 \<Rightarrow> nat option \<Rightarrow> exn + vec" where
  "point states inputs i =
     (case i of
        None \<Rightarrow> Inl (UnboundLocalError ''i'')
      | Some k \<Rightarrow>
          bind_exn (column states k) (\<lambda>xk.
          bind_exn (column inputs k) (\<lambda>uk. hstack [xk, uk])))"

text \<open>\<^verbatim>\<open>np.dot(fun, z)\<close> and \<^verbatim>\<open>fun(z)\<close> on the second component of a descriptor.\<close>

definition np_dot :: "evaluator \<Rightarrow> vec \<Rightarrow> exn + vec" where
  "np_dot cfun z =
     (case cfun of Matrix a \<Rightarrow> dot a z
      | Callable f \<Rightarrow> Inl (TypeError ''unsupported operand type(s) for *''))"

definition call_fun :: "evaluator \<Rightarrow> vec \<Rightarrow> exn + vec" where
  "call_fun cfun z =
     (case cfun of Callable f \<Rightarrow> f z
      | Matrix a \<Rightarrow> Inl (TypeError ''numpy.ndarray object is not callable''))"

text \<open>The body shared by the trajectory loop and the terminal loop.\<close>

definition eval_constraint :: "constraint \<Rightarrow> ndarray2 \<Rightarrow> ndarray2 \<Rightarrow> nat option \<Rightarrow> exn + vec" where
  "eval_constraint c states inputs i =
     (case c of (ctype, cfun, lb, ub) \<Rightarrow>
        if ctype = LinearConstraint
        then bind_exn (point states inputs i) (np_dot cfun)
        else if ctype = NonlinearConstraint
        then bind_exn (point states inputs i) (call_fun cfun)
        else Inl (TypeError (''unknown constraint type '' @ str ctype)))"

fun constraint_loop ::
  "constraint list \<Rightarrow> ndarray2 \<Rightarrow> ndarray2 \<Rightarrow> nat option \<Rightarrow> vec list \<Rightarrow> exn + vec list"
where
  "constraint_loop [] states inputs i vals = Inr vals"
| "constraint_loop (c # cs) states inputs i vals =
     (case eval_constraint c states inputs i of Inl e \<Rightarrow> Inl e
      | Inr v \<Rightarrow> constraint_loop cs states inputs i (vals @ [v]))"

fun time_loop ::
  "(nat \<times> real) list \<Rightarrow> constraint list \<Rightarrow> ndarray2 \<Rightarrow> ndarray2 \<Rightarrow> vec list \<times> nat option
     \<Rightarrow> exn + vec list \<times> nat option"
where
  "time_loop [] cs states inputs (vals, i) = Inr (vals, i)"
| "time_loop ((k, t) # kts) cs states inputs (vals, i) =
     (case constraint_loop cs states inputs (Some k) vals of Inl e \<Rightarrow> Inl e
      | Inr vals' \<Rightarrow> time_loop kts cs states inputs (vals', Some k))"

definition constraint_function :: "OptimalControlProblem \<Rightarrow> vec \<Rightarrow> exn + vec" where
  "constraint_function self inputs =
     (case self_x self of
        None \<Rightarrow> Inl (AttributeError ''x'')
      | Some x \<Rightarrow>
          bind_exn (reshape inputs (ninputs (system self), length (time_vector self)))
            (\<lambda>inputs.
          bind_exn (simulate (system self) (time_vector self) inputs x) (\<lambda>states.
          bind_exn (time_loop (enumerate 0 (time_vector self)) (trajectory_constraints self)
                      states inputs ([], None)) (\<lambda>(vals, i).
          bind_exn (constraint_loop (terminal_constraints self) states inputs i vals)
            hstack))))"

subsection \<open>Trajectory optimization and the MPC step\<close>

text \<open>
  \<^verbatim>\<open>sp.optimize.minimize\<close> is a parameter: it receives the objective, the initial
  guess and the constraint object (function, lower bounds, upper bounds), and either raises
  or returns an \<^verbatim>\<open>OptimizeResult\<close>.
\<close>

record OptimizeResult =
  res_success :: bool
  res_message :: string
  res_x :: vec

type_synonym minimize =
  "(vec \<Rightarrow> exn + real) \<Rightarrow> vec \<Rightarrow> (vec \<Rightarrow> exn + vec) \<times> bound list \<times> bound list
     \<Rightarrow> exn + OptimizeResult"

type_synonym response = "ndarray2 option \<times> ndarray2 option"

text \<open>
  Modelled from the spec: \<^verbatim>\<open>_process_time_response\<close> of \<^verbatim>\<open>control/timeresp.py\<close>
  is not part of the sources at hand. The spec has \<^verbatim>\<open>compute_trajectory\<close> package and
  return the pair (state trajectory or none, input trajectory), the inputs passing through
  unchanged.
\<close>

definition process_time_response ::
  "plant \<Rightarrow> real list \<Rightarrow> ndarray2 \<Rightarrow> ndarray2 option \<Rightarrow> bool option \<Rightarrow> bool option
     \<Rightarrow> bool option \<Rightarrow> response"
where
  "process_time_response sys tout yout xout transpose' return_x squeeze = (xout, Some yout)"

text \<open>
  A method call yields what it returned or raised, the object after the call, and the
  warnings it emitted.
\<close>

type_synonym 'a outcome = "(exn + 'a) \<times> OptimalControlProblem \<times> string list"

definition compute_trajectory ::
  "minimize \<Rightarrow> OptimalControlProblem \<Rightarrow> vec \<Rightarrow> bool option \<Rightarrow> bool option \<Rightarrow> bool option
     \<Rightarrow> response option outcome"
where
  "compute_trajectory minimize self0 x squeeze transpose' return_x =
     (let self = self0\<lparr>self_x := Some x\<rparr> in
      case minimize (cost_function self) (initial_guess self)
             (constraint_function self, fst (constraints self), snd (constraints self)) of
        Inl e \<Rightarrow> (Inl e, self, [])
      | Inr res \<Rightarrow>
          if \<not> res_success res then (Inr None, self, [res_message res])
          else
            (case reshape (res_x res) (ninputs (system self), length (time_vector self)) of
               Inl e \<Rightarrow> (Inl e, self, [])
             | Inr inputs \<Rightarrow>
                 (case (if return_x = Some True
                        then map_sum id Some
                               (simulate (system self) (time_vector self) inputs x)
                        else Inr None) of
                    Inl e \<Rightarrow> (Inl e, self, [])
                  | Inr states \<Rightarrow>
                      (Inr (Some (process_time_response (system self) (time_vector self)
                                    inputs states transpose' return_x squeeze)),
                       self, []))))"

definition mpc ::
  "minimize \<Rightarrow> OptimalControlProblem \<Rightarrow> vec \<Rightarrow> bool option \<Rightarrow> vec option outcome"
where
  "mpc minimize self0 x squeeze =
     (case compute_trajectory minimize self0 x squeeze None None of
        (r, self, warnings) \<Rightarrow>
          (case r of
             Inl e \<Rightarrow> (Inl e, self, warnings)
           | Inr None \<Rightarrow>
               (Inl (TypeError ''cannot unpack non-iterable NoneType object''), self, warnings)
           | Inr (Some (_, inputs)) \<Rightarrow>
               (case inputs of
                  None \<Rightarrow> (Inr None, self, warnings)
                | Some a \<Rightarrow>
                    (map_sum id Some (getitem0 (ndarray_transpose a)), self, warnings))))"

definition call :: "minimize \<Rightarrow> OptimalControlProblem \<Rightarrow> vec \<Rightarrow> bool option \<Rightarrow> vec option outcome"
where
  "call minimize self x squeeze = mpc minimize self x squeeze"

section \<open>Notions used to state the properties\<close>

text \<open>The time sample \<open>k\<close> of a trajectory: column \<open>k\<close> of the array.\<close>

definition col :: "ndarray2 \<Rightarrow> nat \<Rightarrow> vec" where
  "col a k = map (\<lambda>r. r ! k) (rows a)"

text \<open>A list of evaluations run in order: the first exception, or all the values.\<close>

fun collect :: "(exn + 'a) list \<Rightarrow> exn + 'a list" where
  "collect [] = Inr []"
| "collect (r # rs) =
     (case r of Inl e \<Rightarrow> Inl e
      | Inr v \<Rightarrow> (case collect rs of Inl e \<Rightarrow> Inl e | Inr vs \<Rightarrow> Inr (v # vs)))"

text \<open>
  The order in which \<^verbatim>\<open>constraint_function\<close> visits the descriptors, each with the
  value the loop variable \<^verbatim>\<open>i\<close> has there: time-point-major, then constraint-list
  order, the terminal constraints last.
\<close>

definition evaluation_order :: "OptimalControlProblem \<Rightarrow> (constraint \<times> nat option) list" where
  "evaluation_order self =
     (let N = length (time_vector self) in
      concat (map (\<lambda>k. map (\<lambda>c. (c, Some k)) (trajectory_constraints self)) [0..<N])
      @ map (\<lambda>t. (t, if N = 0 then None else Some (N - 1))) (terminal_constraints self))"

text \<open>
  What a descriptor yields at a concatenated (state, input) vector \<open>z\<close>: the dispatch on
  its tag, with the exceptions it may raise.
\<close>

definition constraint_value :: "constraint \<Rightarrow> vec \<Rightarrow> exn + vec" where
  "constraint_value c z =
     (case c of (ctype, cfun, lb, ub) \<Rightarrow>
        if ctype = LinearConstraint then np_dot cfun z
        else if ctype = NonlinearConstraint then call_fun cfun z
        else Inl (TypeError (''unknown constraint type '' @ str ctype)))"

text \<open>
  The value the spec gives a descriptor at \<open>z\<close>: for a matrix \<open>A\<close> the product
  \<open>A \<cdot> z\<close>, row by row the sum of the products of the entries; for a callable its
  result on \<open>z\<close>.
\<close>

definition descriptor_value :: "constraint \<Rightarrow> vec \<Rightarrow> vec" where
  "descriptor_value c z =
     (case c_fun c of
        Matrix A \<Rightarrow> map (\<lambda>row. sum_list (map2 (*) row z)) (rows A)
      | Callable f \<Rightarrow> projr (f z))"

text \<open>
  The invariant of the data model for a descriptor evaluated on vectors of length \<open>d\<close>:
  the tag and the evaluator agree, the two bound vectors and the evaluator's output have
  one length, and a matrix has \<open>d\<close> columns.
\<close>

definition well_formed :: "nat \<Rightarrow> constraint \<Rightarrow> bool" where
  "well_formed d c =
     (case c of (ctype, cfun, lb, ub) \<Rightarrow>
        length ub = length lb \<and>
        (case cfun of
           Matrix A \<Rightarrow> ctype = LinearConstraint \<and> ncols A = d \<and> shape0 A = length lb
         | Callable f \<Rightarrow>
             ctype = NonlinearConstraint \<and>
             (\<forall>z. length z = d \<longrightarrow> (\<exists>v. f z = Inr v \<and> length v = length lb))))"

text \<open>The descriptors that come out of the three factories.\<close>

inductive factory_made :: "constraint \<Rightarrow> bool" where
  from_state_poly: "state_poly_constraint sys polytope = Inr c \<Longrightarrow> factory_made c"
| from_input_poly: "input_poly_constraint sys polytope = Inr c \<Longrightarrow> factory_made c"
| from_output_poly: "factory_made (output_poly_constraint sys polytope)"

section \<open>A small problem on which the theorems are exercised\<close>

text \<open>
  One state, one input; the simulated state at each time point is the input there plus the
  initial state. One linear and one two-row nonlinear trajectory constraint, one linear
  terminal constraint.
\<close>

definition ex_plant :: plant where
  "ex_plant =
     \<lparr>ninputs = 1, nstates = 1,
      simulate = (\<lambda>T U x0.
         Inr \<lparr>ncols = ncols U, rows = map (map (\<lambda>u. u + sum_list x0)) (rows U)\<rparr>),
      sys_out = (\<lambda>t x u. x)\<rparr>"

definition ex_cost :: "vec \<Rightarrow> vec \<Rightarrow> real" where
  "ex_cost x u = sum_list (map (\<lambda>a. a * a) x) + sum_list (map (\<lambda>a. a * a) u)"

definition ex_c1 :: constraint where
  "ex_c1 = (LinearConstraint, Matrix \<lparr>ncols = 2, rows = [[1, 0]]\<rparr>, [NegInf], [Num 5])"

definition ex_c2 :: constraint where
  "ex_c2 = (NonlinearConstraint, Callable (\<lambda>z. Inr [sum_list z, 2]),
            [Num 0, Num 0], [Num 9, Num 3])"

definition ex_t1 :: constraint where
  "ex_t1 = (LinearConstraint, Matrix \<lparr>ncols = 2, rows = [[0, 1]]\<rparr>, [Num (- 1)], [Num 1])"

definition ex_problem :: OptimalControlProblem where
  "ex_problem =
     \<lparr>system = ex_plant, time_vector = [0, 1], integral_cost = ex_cost,
      trajectory_constraints = [ex_c1, ex_c2], terminal_cost = Some ex_cost,
      terminal_constraints = [ex_t1],
      constraint_lb = [NegInf, Num 0, Num 0, NegInf, Num 0, Num 0, Num (- 1)],
      constraint_ub = [Num 5, Num 9, Num 3, Num 5, Num 9, Num 3, Num 1],
      constraints = ([NegInf, Num 0, Num 0, NegInf, Num 0, Num 0, Num (- 1)],
                     [Num 5, Num 9, Num 3, Num 5, Num 9, Num 3, Num 1]),
      initial_guess = [0, 0], self_x = None\<rparr>"

definition ex_unknown :: constraint where
  "ex_unknown = (OtherType ''str'', Matrix \<lparr>ncols = 2, rows = [[1, 1]]\<rparr>, [Num 0], [Num 1])"

definition ex_polytope :: polytope where
  "ex_polytope = \<lparr>poly_A = \<lparr>ncols = 1, rows = [[1]]\<rparr>, poly_b = [Num 5]\<rparr>"

definition ex_minimize :: minimize where
  "ex_minimize f guess c =
     Inr \<lparr>res_success = True, res_message = ''Optimization terminated successfully'',
          res_x = [2, 3]\<rparr>"

definition ex_minimize_failing :: minimize where
  "ex_minimize_failing f guess c =
     Inr \<lparr>res_success = False, res_message = ''Iteration limit exceeded'', res_x = guess\<rparr>"

section \<open>Helper facts\<close>

lemma bind_exn_simps [simp]:
  "bind_exn (Inl e) f = Inl e" "bind_exn (Inr v) f = f v"
  by (simp_all add: bind_exn_def)

lemma collect_append:
  "collect (xs @ ys) = bind_exn (collect xs) (\<lambda>vs. bind_exn (collect ys) (\<lambda>ws. Inr (vs @ ws)))"
  by (induction xs) (auto simp: bind_exn_def split: sum.splits)

lemma collect_map_Inr: "collect (map (\<lambda>x. Inr (f x)) xs) = Inr (map f xs)"
  by (induction xs) auto

lemma collect_all_Inr:
  "\<forall>r \<in> set rs. \<exists>v. r = Inr v \<Longrightarrow> \<exists>vs. collect rs = Inr vs"
  by (induction rs) auto

lemma collect_error_mem: "collect rs = Inl e \<Longrightarrow> Inl e \<in> set rs"
  by (induction rs) (auto split: sum.splits)

lemma map_enumerate: "map (\<lambda>(k, t). f k) (enumerate n ts) = map f [n..<n + length ts]"
  by (induction ts arbitrary: n) (simp_all add: upt_rec)

lemma enumerate_Nil_iff: "enumerate n ts = [] \<longleftrightarrow> ts = []"
  by (cases ts) simp_all

lemma last_enumerate: "ts \<noteq> [] \<Longrightarrow> fst (last (enumerate n ts)) = n + length ts - 1"
  by (induction ts arbitrary: n) (auto simp: enumerate_Nil_iff)

lemma concat_replicate_Nil_iff:
  "concat (replicate n xs) = [] \<longleftrightarrow> n = 0 \<or> xs = []"
  by (induction n) auto

lemma concat_replicate_map:
  "concat (replicate n (map f xs)) = concat (map (\<lambda>k. map f xs) [0..<n])"
  by (simp add: map_replicate_const)

lemma reshape_shape:
  "reshape u (m, n) = Inr inp \<Longrightarrow> ncols inp = n \<and> shape0 inp = m"
  by (auto simp: reshape_def shape0_def split: if_splits)

lemma col_length: "length (col a k) = shape0 a"
  by (simp add: col_def shape0_def)

lemma last_column_col:
  "ncols a \<noteq> 0 \<Longrightarrow> last_column a = Inr (col a (ncols a - 1))"
  by (simp add: last_column_def column_def col_def)

lemma getitem0_transpose:
  "ncols a \<noteq> 0 \<Longrightarrow> getitem0 (ndarray_transpose a) = Inr (col a 0)"
  by (simp add: getitem0_def ndarray_transpose_def col_def upt_conv_Cons)

section \<open>Construction: the stacked bound vectors\<close>

lemma stack_bounds_acc:
  "stack_bounds cs (lbs, ubs) = (lbs @ map c_lb cs, ubs @ map c_ub cs)"
  by (induction cs arbitrary: lbs ubs) (auto simp: c_lb_def c_ub_def)

lemma stack_time_acc:
  "stack_time ts cs (lbs, ubs) =
     (lbs @ concat (replicate (length ts) (map c_lb cs)),
      ubs @ concat (replicate (length ts) (map c_ub cs)))"
  by (induction ts arbitrary: lbs ubs) (simp_all add: stack_bounds_acc)

lemma stacked_segments:
  "stack_bounds tcons (stack_time time traj ([], [])) =
     (concat (replicate (length time) (map c_lb traj)) @ map c_lb tcons,
      concat (replicate (length time) (map c_ub traj)) @ map c_ub tcons)"
  by (simp add: stack_time_acc stack_bounds_acc)

lemma init_fields:
  assumes "init sys time L traj T tcons = Inr self"
  shows "system self = sys" and "time_vector self = time"
    and "trajectory_constraints self = traj" and "terminal_constraints self = tcons"
    and "integral_cost self = L" and "terminal_cost self = T"
    and "constraint_lb self =
           concat (concat (replicate (length time) (map c_lb traj)) @ map c_lb tcons)"
    and "constraint_ub self =
           concat (concat (replicate (length time) (map c_ub traj)) @ map c_ub tcons)"
    and "constraints self = (constraint_lb self, constraint_ub self)"
    and "initial_guess self = replicate (ninputs sys * length time) 0"
    and "self_x self = None"
    and "(time \<noteq> [] \<and> traj \<noteq> []) \<or> tcons \<noteq> []"
  using assms
  by (auto simp: init_def stacked_segments hstack_def bind_exn_def zeros1_def
        concat_replicate_Nil_iff split: if_splits)

lemma ex_init:
  "init ex_plant [0, 1] ex_cost [ex_c1, ex_c2] (Some ex_cost) [ex_t1] = Inr ex_problem"
  by (simp add: init_def hstack_def ex_problem_def ex_c1_def ex_c2_def ex_t1_def
        ex_plant_def zeros1_def numeral_2_eq_2)

text \<open>
  C2. Whenever there is at least one bound segment to stack, construction succeeds and
  the stacked lower-bound vector is the flattening of the trajectory constraints' lower
  bounds, in list order, repeated once per time point, followed by the terminal
  constraints' lower bounds once; likewise for the upper bounds.
\<close>

theorem stacked_bounds_order:
  assumes "(time \<noteq> [] \<and> traj \<noteq> []) \<or> tcons \<noteq> []"
  shows "\<exists>self. init sys time L traj T tcons = Inr self
           \<and> constraint_lb self =
               concat (concat (replicate (length time) (map c_lb traj)) @ map c_lb tcons)
           \<and> constraint_ub self =
               concat (concat (replicate (length time) (map c_ub traj)) @ map c_ub tcons)"
  using assms
  by (auto simp: init_def stacked_segments hstack_def bind_exn_def concat_replicate_Nil_iff)

theorem stacked_bounds_order_witness:
  "(([0, 1] \<noteq> ([] :: real list) \<and> [ex_c1, ex_c2] \<noteq> []) \<or> [ex_t1] \<noteq> [])
   \<and> (\<exists>self. init ex_plant [0, 1] ex_cost [ex_c1, ex_c2] None [ex_t1] = Inr self
          \<and> constraint_lb self =
               [NegInf, Num 0, Num 0, NegInf, Num 0, Num 0, Num (- 1)]
          \<and> constraint_ub self =
               [Num 5, Num 9, Num 3, Num 5, Num 9, Num 3, Num 1])"
  using stacked_bounds_order [of "[0, 1]" "[ex_c1, ex_c2]" "[ex_t1]" ex_plant ex_cost None]
  by (simp add: c_lb_def c_ub_def ex_c1_def ex_c2_def ex_t1_def numeral_2_eq_2)

text \<open>
  C10. With both constraint lists empty (their defaults) the initializer has nothing to
  flatten: \<^verbatim>\<open>np.hstack\<close> of the empty list raises, whatever the plant, the time grid
  and the costs are, so no unconstrained problem is ever constructed.
\<close>

theorem unconstrained_construction_fails:
  "init sys time L [] T [] = Inl (ValueError ''need at least one array to concatenate'')"
  by (simp add: init_def stacked_segments hstack_def bind_exn_def concat_replicate_Nil_iff)

section \<open>Constraint evaluation\<close>

lemma constraint_loop_collect:
  "constraint_loop cs st inp i vals =
     bind_exn (collect (map (\<lambda>c. eval_constraint c st inp i) cs)) (\<lambda>vs. Inr (vals @ vs))"
  by (induction cs arbitrary: vals) (auto split: sum.splits)

lemma time_loop_collect:
  "time_loop kts cs st inp (vals, i) =
     bind_exn (collect (concat (map (\<lambda>(k, t). map (\<lambda>c. eval_constraint c st inp (Some k)) cs) kts)))
       (\<lambda>vs. Inr (vals @ vs, if kts = [] then i else Some (fst (last kts))))"
proof (induction kts arbitrary: vals i)
  case Nil
  then show ?case by simp
next
  case (Cons kt kts)
  obtain k t where kt: "kt = (k, t)" by (cases kt)
  show ?case
    by (cases "collect (map (\<lambda>c. eval_constraint c st inp (Some k)) cs)";
        cases "collect (concat (map (\<lambda>(k, t). map (\<lambda>c. eval_constraint c st inp (Some k)) cs) kts))")
       (auto simp: kt Cons.IH constraint_loop_collect collect_append)
qed

lemma constraint_function_steps:
  assumes "self_x self = Some x0"
    and "reshape u (ninputs (system self), length (time_vector self)) = Inr inp"
    and "simulate (system self) (time_vector self) inp x0 = Inr st"
  shows "constraint_function self u =
     bind_exn (collect (map (\<lambda>(c, i). eval_constraint c st inp i) (evaluation_order self))) hstack"
proof -
  let ?N = "length (time_vector self)"
  let ?ts = "time_vector self"
  have last_i: "(if enumerate 0 ?ts = [] then None else Some (fst (last (enumerate 0 ?ts))))
      = (if ?N = 0 then None else Some (?N - 1))"
    by (auto simp: enumerate_Nil_iff last_enumerate)
  have traj: "concat (map (\<lambda>(k, t). map (\<lambda>c. eval_constraint c st inp (Some k))
                   (trajectory_constraints self)) (enumerate 0 ?ts))
      = map (\<lambda>(c, i). eval_constraint c st inp i)
          (concat (map (\<lambda>k. map (\<lambda>c. (c, Some k)) (trajectory_constraints self)) [0..<?N]))"
    by (simp add: map_enumerate map_concat comp_def)
  show ?thesis
    unfolding constraint_function_def evaluation_order_def Let_def
    by (simp add: assms time_loop_collect constraint_loop_collect collect_append traj last_i
          comp_def bind_exn_def split: sum.splits)
qed

text \<open>
  On an empty time grid the loop variable is never bound, so a terminal constraint with
  a known tag cannot be evaluated.
\<close>

lemma empty_grid_terminal_constraint:
  assumes "time_vector self = []"
    and "self_x self = Some x0"
    and "reshape u (ninputs (system self), length (time_vector self)) = Inr inp"
    and "simulate (system self) (time_vector self) inp x0 = Inr st"
    and "terminal_constraints self = c # cs"
    and "c_type c = LinearConstraint \<or> c_type c = NonlinearConstraint"
  shows "constraint_function self u = Inl (UnboundLocalError ''i'')"
proof -
  have "eval_constraint c st inp None = Inl (UnboundLocalError ''i'')"
    using assms(6) by (cases c) (auto simp: eval_constraint_def point_def c_type_def)
  then show ?thesis
    by (simp add: constraint_function_steps [OF assms(2,3,4)] evaluation_order_def
          assms(1,5))
qed

lemma point_Some:
  "k < ncols st \<Longrightarrow> k < ncols inp \<Longrightarrow> point st inp (Some k) = Inr (col st k @ col inp k)"
  by (simp add: point_def column_def hstack_def col_def)

lemma eval_constraint_value:
  "point st inp i = Inr z \<Longrightarrow> eval_constraint c st inp i = constraint_value c z"
  by (simp add: eval_constraint_def constraint_value_def split: prod.splits)

lemma eval_constraint_at:
  "k < ncols st \<Longrightarrow> k < ncols inp \<Longrightarrow>
     eval_constraint c st inp (Some k) = constraint_value c (col st k @ col inp k)"
  by (simp add: eval_constraint_value point_Some)

lemma evaluation_steps_at:
  assumes "ncols st = N" and "ncols inp = N" and "N \<noteq> 0"
  shows "map (\<lambda>(c, i). eval_constraint c st inp i)
           (concat (map (\<lambda>k. map (\<lambda>c. (c, Some k)) traj) [0..<N])
            @ map (\<lambda>t. (t, Some (N - 1))) tcons)
       = concat (map (\<lambda>k. map (\<lambda>c. constraint_value c (col st k @ col inp k)) traj) [0..<N])
         @ map (\<lambda>t. constraint_value t (col st (N - 1) @ col inp (N - 1))) tcons"
proof -
  have traj: "map (\<lambda>k. map (\<lambda>c. eval_constraint c st inp (Some k)) traj) [0..<N]
      = map (\<lambda>k. map (\<lambda>c. constraint_value c (col st k @ col inp k)) traj) [0..<N]"
    by (rule map_cong) (auto simp: eval_constraint_at assms)
  have last: "N - 1 < N"
    using assms(3) by simp
  have "map (\<lambda>t. eval_constraint t st inp (Some (N - 1))) tcons
      = map (\<lambda>t. constraint_value t (col st (N - 1) @ col inp (N - 1))) tcons"
    using last by (simp add: eval_constraint_at assms(1,2))
  then show ?thesis
    by (simp add: map_concat comp_def traj)
qed

lemma constraint_function_unfold:
  assumes "time_vector self \<noteq> []"
    and "self_x self = Some x0"
    and "reshape u (ninputs (system self), length (time_vector self)) = Inr inp"
    and "simulate (system self) (time_vector self) inp x0 = Inr st"
    and "ncols st = length (time_vector self)"
  shows "constraint_function self u =
     bind_exn (collect (concat (map (\<lambda>k. map (\<lambda>c. constraint_value c (col st k @ col inp k))
                                        (trajectory_constraints self))
                              [0..<length (time_vector self)])))
       (\<lambda>vals.
     bind_exn (collect (map (\<lambda>t. constraint_value t
                                  (col st (length (time_vector self) - 1)
                                   @ col inp (length (time_vector self) - 1)))
                          (terminal_constraints self)))
       (\<lambda>tvals. hstack (vals @ tvals)))"
proof -
  have inp: "ncols inp = length (time_vector self)"
    using reshape_shape [OF assms(3)] by simp
  have N: "length (time_vector self) \<noteq> 0"
    using assms(1) by simp
  let ?A = "concat (map (\<lambda>k. map (\<lambda>c. constraint_value c (col st k @ col inp k))
                                 (trajectory_constraints self))
                        [0..<length (time_vector self)])"
  let ?B = "map (\<lambda>t. constraint_value t
                      (col st (length (time_vector self) - 1)
                       @ col inp (length (time_vector self) - 1)))
              (terminal_constraints self)"
  have "map (\<lambda>(c, i). eval_constraint c st inp i) (evaluation_order self) = ?A @ ?B"
    unfolding evaluation_order_def Let_def
    using evaluation_steps_at [OF assms(5) inp N] N by simp
  then have "constraint_function self u = bind_exn (collect (?A @ ?B)) hstack"
    by (simp add: constraint_function_steps [OF assms(2,3,4)])
  also have "\<dots> = bind_exn (collect ?A) (\<lambda>vals. bind_exn (collect ?B)
                        (\<lambda>tvals. hstack (vals @ tvals)))"
    by (cases "collect ?A"; cases "collect ?B") (simp_all add: collect_append)
  finally show ?thesis .
qed

lemma ex_reshape':
  "reshape [2, 3] (ninputs ex_plant, length [0, 1 :: real]) = Inr \<lparr>ncols = 2, rows = [[2, 3]]\<rparr>"
  by (simp add: ex_plant_def reshape_def numeral_2_eq_2)

lemma ex_simulate:
  "simulate ex_plant [0, 1] \<lparr>ncols = 2, rows = [[2, 3]]\<rparr> [1]
     = Inr \<lparr>ncols = 2, rows = [[3, 4]]\<rparr>"
  by (simp add: ex_plant_def)

text \<open>
  C5. Over a non-empty time grid \<^verbatim>\<open>constraint_function\<close> evaluates the trajectory
  constraints at every point, then every terminal constraint once, at the concatenated
  state and input of the point \<open>N - 1\<close>, and returns the trajectory values followed by
  the terminal values; the first exception on the way is the result.
\<close>

theorem terminal_constraints_at_final_point:
  assumes "time_vector self \<noteq> []"
    and "self_x self = Some x0"
    and "reshape u (ninputs (system self), length (time_vector self)) = Inr inp"
    and "simulate (system self) (time_vector self) inp x0 = Inr st"
    and "ncols st = length (time_vector self)"
  shows "constraint_function self u =
     bind_exn (collect (concat (map (\<lambda>k. map (\<lambda>c. constraint_value c (col st k @ col inp k))
                                        (trajectory_constraints self))
                              [0..<length (time_vector self)])))
       (\<lambda>vals.
     bind_exn (collect (map (\<lambda>t. constraint_value t
                                  (col st (length (time_vector self) - 1)
                                   @ col inp (length (time_vector self) - 1)))
                          (terminal_constraints self)))
       (\<lambda>tvals. hstack (vals @ tvals)))"
  using assms by (rule constraint_function_unfold)

theorem terminal_constraints_at_final_point_witness:
  "time_vector (ex_problem\<lparr>self_x := Some [1]\<rparr>) \<noteq> []
   \<and> constraint_function (ex_problem\<lparr>self_x := Some [1]\<rparr>) [2, 3]
       = Inr ([3, 5, 2, 4, 7, 2] @ [3])"
proof -
  let ?inp = "\<lparr>ncols = 2, rows = [[2, 3 :: real]]\<rparr>"
  let ?st = "\<lparr>ncols = 2, rows = [[3, 4 :: real]]\<rparr>"
  show ?thesis
    using terminal_constraints_at_final_point [of "ex_problem\<lparr>self_x := Some [1]\<rparr>"
        "[1]" "[2, 3]" ?inp ?st] ex_reshape' ex_simulate
    by (simp add: ex_problem_def constraint_value_def col_def ex_c1_def ex_c2_def ex_t1_def
          np_dot_def call_fun_def dot_def inner_def hstack_def upt_conv_Cons numeral_2_eq_2)
qed

lemma well_formed_value:
  assumes "well_formed d c" and "length z = d"
  shows "constraint_value c z = Inr (descriptor_value c z)"
    and "length (descriptor_value c z) = length (c_lb c)"
    and "length (c_ub c) = length (c_lb c)"
proof -
  obtain ctype cfun lb ub where c: "c = (ctype, cfun, lb, ub)"
    by (cases c)
  show "constraint_value c z = Inr (descriptor_value c z)"
    using assms
    by (cases cfun)
       (auto simp: c well_formed_def constraint_value_def descriptor_value_def c_fun_def
          np_dot_def call_fun_def dot_def inner_def)
  show "length (descriptor_value c z) = length (c_lb c)"
    using assms
    by (cases cfun)
       (auto simp: c well_formed_def descriptor_value_def c_fun_def c_lb_def shape0_def)
  show "length (c_ub c) = length (c_lb c)"
    using assms by (simp add: c well_formed_def c_ub_def c_lb_def)
qed

lemma ex_wf:
  "\<forall>c \<in> set ([ex_c1, ex_c2] @ [ex_t1]). well_formed (nstates ex_plant + ninputs ex_plant) c"
  by (simp add: well_formed_def ex_c1_def ex_c2_def ex_t1_def ex_plant_def shape0_def)

text \<open>
  C1. Take a constructed problem over a non-empty time grid whose descriptors satisfy the
  invariant of the data model, an input vector of length \<open>ninputs * N\<close> and a simulated
  state trajectory of shape \<open>(nstates, N)\<close>. Then \<^verbatim>\<open>constraint_function\<close> returns
  the concatenation of the per-point values, time point by time point and within a time
  point in constraint-list order, the terminal values last; a matrix contributes its
  product with \<open>[x\<^sub>k; u\<^sub>k]\<close>, a callable its result on \<open>[x\<^sub>k; u\<^sub>k]\<close>; and the segments
  of the result have the lengths of the segments of the two stacked bound vectors, in
  the same order.
\<close>

theorem constraint_function_matches_stacking:
  assumes "init sys time L traj T tcons = Inr self"
    and "time \<noteq> []"
    and "reshape u (ninputs sys, length time) = Inr inp"
    and "simulate sys time inp x0 = Inr st"
    and "ncols st = length time"
    and "shape0 st = nstates sys"
    and "\<forall>c \<in> set (traj @ tcons). well_formed (nstates sys + ninputs sys) c"
  shows "\<exists>vals.
           vals = concat (map (\<lambda>k. map (\<lambda>c. descriptor_value c (col st k @ col inp k)) traj)
                            [0..<length time])
                  @ map (\<lambda>t. descriptor_value t
                                (col st (length time - 1) @ col inp (length time - 1))) tcons
         \<and> constraint_function (self\<lparr>self_x := Some x0\<rparr>) u = Inr (concat vals)
         \<and> constraint_lb self =
             concat (concat (replicate (length time) (map c_lb traj)) @ map c_lb tcons)
         \<and> constraint_ub self =
             concat (concat (replicate (length time) (map c_ub traj)) @ map c_ub tcons)
         \<and> map length vals =
             map length (concat (replicate (length time) (map c_lb traj)) @ map c_lb tcons)
         \<and> map length vals =
             map length (concat (replicate (length time) (map c_ub traj)) @ map c_ub tcons)"
proof -
  let ?N = "length time"
  let ?d = "nstates sys + ninputs sys"
  let ?z = "\<lambda>k. col st k @ col inp k"
  let ?self = "self\<lparr>self_x := Some x0\<rparr>"
  note f = init_fields [OF assms(1)]
  have inp: "ncols inp = ?N" "shape0 inp = ninputs sys"
    using reshape_shape [OF assms(3)] by simp_all
  have len: "length (?z k) = ?d" for k
    by (simp add: col_length assms(6) inp)
  have wf: "well_formed ?d c" if "c \<in> set traj \<or> c \<in> set tcons" for c
    using assms(7) that by auto
  have val: "constraint_value c (?z k) = Inr (descriptor_value c (?z k))"
    if "c \<in> set traj \<or> c \<in> set tcons" for c k
    using well_formed_value(1) [OF wf [OF that] len] .
  have lenv: "length (descriptor_value c (?z k)) = length (c_lb c)"
    if "c \<in> set traj \<or> c \<in> set tcons" for c k
    using well_formed_value(2) [OF wf [OF that] len] .
  have lenu: "length (c_ub c) = length (c_lb c)"
    if "c \<in> set traj \<or> c \<in> set tcons" for c
    using well_formed_value(3) [OF wf [OF that] len] .
  let ?A = "concat (map (\<lambda>k. map (\<lambda>c. descriptor_value c (?z k)) traj) [0..<?N])"
  let ?B = "map (\<lambda>t. descriptor_value t (?z (?N - 1))) tcons"
  have A: "concat (map (\<lambda>k. map (\<lambda>c. constraint_value c (?z k)) traj) [0..<?N])
             = map Inr ?A"
    by (simp add: map_concat comp_def val cong: map_cong)
  have B: "map (\<lambda>t. constraint_value t (?z (?N - 1))) tcons = map Inr ?B"
    by (simp add: val cong: map_cong)
  have collect_Inr: "collect (map Inr xs) = Inr xs" for xs :: "vec list"
    using collect_map_Inr [of "\<lambda>x. x" xs] by simp
  have nonempty: "?A @ ?B \<noteq> []"
    using f(12) assms(2) by (cases time) (auto)
  have "constraint_function ?self u =
      bind_exn (collect (concat (map (\<lambda>k. map (\<lambda>c. constraint_value c (?z k)) traj) [0..<?N])))
        (\<lambda>vals. bind_exn (collect (map (\<lambda>t. constraint_value t (?z (?N - 1))) tcons))
        (\<lambda>tvals. hstack (vals @ tvals)))"
    using constraint_function_unfold [of ?self x0 u inp st]
    by (simp add: f assms del: One_nat_def)
  also have "\<dots> = hstack (?A @ ?B)"
    unfolding A B collect_Inr by simp
  finally have run: "constraint_function ?self u = Inr (concat (?A @ ?B))"
    using nonempty by (simp add: hstack_def del: One_nat_def)
  have lens_lb: "map length (?A @ ?B)
      = map length (concat (replicate ?N (map c_lb traj)) @ map c_lb tcons)"
    by (simp add: concat_replicate_map map_concat comp_def lenv cong: map_cong)
  have lens_ub: "map length (?A @ ?B)
      = map length (concat (replicate ?N (map c_ub traj)) @ map c_ub tcons)"
    by (simp add: concat_replicate_map map_concat comp_def lenv lenu cong: map_cong)
  show ?thesis
    using run lens_lb lens_ub f(7,8) by blast
qed

theorem constraint_function_matches_stacking_witness:
  "init ex_plant [0, 1] ex_cost [ex_c1, ex_c2] (Some ex_cost) [ex_t1] = Inr ex_problem
   \<and> reshape [2, 3] (ninputs ex_plant, length [0, 1 :: real]) = Inr \<lparr>ncols = 2, rows = [[2, 3]]\<rparr>
   \<and> simulate ex_plant [0, 1] \<lparr>ncols = 2, rows = [[2, 3]]\<rparr> [1]
        = Inr \<lparr>ncols = 2, rows = [[3, 4]]\<rparr>
   \<and> constraint_function (ex_problem\<lparr>self_x := Some [1]\<rparr>) [2, 3] = Inr [3, 5, 2, 4, 7, 2, 3]
   \<and> constraint_lb ex_problem = [NegInf, Num 0, Num 0, NegInf, Num 0, Num 0, Num (- 1)]
   \<and> constraint_ub ex_problem = [Num 5, Num 9, Num 3, Num 5, Num 9, Num 3, Num 1]"
proof -
  have r: "reshape [2, 3] (ninputs ex_plant, length [0, 1 :: real])
             = Inr \<lparr>ncols = 2, rows = [[2, 3]]\<rparr>"
    by (simp add: ex_plant_def reshape_def numeral_2_eq_2)
  have "\<exists>vals.
          vals = concat (map (\<lambda>k. map (\<lambda>c. descriptor_value c
                    (col \<lparr>ncols = 2, rows = [[3, 4]]\<rparr> k @ col \<lparr>ncols = 2, rows = [[2, 3]]\<rparr> k))
                    [ex_c1, ex_c2]) [0..<length [0, 1 :: real]])
                 @ map (\<lambda>t. descriptor_value t
                    (col \<lparr>ncols = 2, rows = [[3, 4]]\<rparr> (length [0, 1 :: real] - 1)
                     @ col \<lparr>ncols = 2, rows = [[2, 3]]\<rparr> (length [0, 1 :: real] - 1))) [ex_t1]
        \<and> constraint_function (ex_problem\<lparr>self_x := Some [1]\<rparr>) [2, 3] = Inr (concat vals)
        \<and> constraint_lb ex_problem =
            concat (concat (replicate (length [0, 1 :: real]) (map c_lb [ex_c1, ex_c2]))
                    @ map c_lb [ex_t1])
        \<and> constraint_ub ex_problem =
            concat (concat (replicate (length [0, 1 :: real]) (map c_ub [ex_c1, ex_c2]))
                    @ map c_ub [ex_t1])
        \<and> map length vals =
            map length (concat (replicate (length [0, 1 :: real]) (map c_lb [ex_c1, ex_c2]))
                        @ map c_lb [ex_t1])
        \<and> map length vals =
            map length (concat (replicate (length [0, 1 :: real]) (map c_ub [ex_c1, ex_c2]))
                        @ map c_ub [ex_t1])"
    by (rule constraint_function_matches_stacking [OF ex_init _ r ex_simulate _ _ ex_wf])
       (simp_all add: shape0_def ex_plant_def)
  then have "constraint_function (ex_problem\<lparr>self_x := Some [1]\<rparr>) [2, 3]
      = Inr [3, 5, 2, 4, 7, 2, 3]"
    by (simp add: descriptor_value_def col_def c_fun_def ex_c1_def ex_c2_def ex_t1_def
          upt_conv_Cons numeral_2_eq_2)
  then show ?thesis
    using ex_init r ex_simulate by (simp add: ex_problem_def)
qed

section \<open>The factories\<close>

lemma hstack2_pad_right:
  "hstack2 [a, zeros (shape0 a, k)] =
     Inr \<lparr>ncols = ncols a + k, rows = map (\<lambda>r. r @ replicate k 0) (rows a)\<rparr>"
proof -
  have "map (\<lambda>j. rows a ! j @ replicate (length (rows a)) (replicate k 0) ! j)
          [0..<length (rows a)] = map (\<lambda>r. r @ replicate k 0) (rows a)"
    by (rule nth_equalityI) simp_all
  then show ?thesis
    by (simp add: hstack2_def zeros_def shape0_def)
qed

lemma hstack2_pad_left:
  "hstack2 [zeros (shape0 a, k), a] =
     Inr \<lparr>ncols = k + ncols a, rows = map (\<lambda>r. replicate k 0 @ r) (rows a)\<rparr>"
proof -
  have "map (\<lambda>j. replicate (length (rows a)) (replicate k 0) ! j @ rows a ! j)
          [0..<length (rows a)] = map (\<lambda>r. replicate k 0 @ r) (rows a)"
    by (rule nth_equalityI) simp_all
  then show ?thesis
    by (simp add: hstack2_def zeros_def shape0_def)
qed

lemma state_poly_constraint_eq:
  "state_poly_constraint sys p =
     Inr (LinearConstraint,
          Matrix \<lparr>ncols = ncols (poly_A p) + ninputs sys,
                  rows = map (\<lambda>r. r @ replicate (ninputs sys) 0) (rows (poly_A p))\<rparr>,
          replicate (length (rows (poly_A p))) NegInf, poly_b p)"
  unfolding state_poly_constraint_def hstack2_pad_right
  by (simp add: full_def shape0_def)

lemma input_poly_constraint_eq:
  "input_poly_constraint sys p =
     Inr (LinearConstraint,
          Matrix \<lparr>ncols = nstates sys + ncols (poly_A p),
                  rows = map (\<lambda>r. replicate (nstates sys) 0 @ r) (rows (poly_A p))\<rparr>,
          replicate (length (rows (poly_A p))) NegInf, poly_b p)"
  unfolding input_poly_constraint_def hstack2_pad_left
  by (simp add: full_def shape0_def)

lemma ex_state_poly: "state_poly_constraint ex_plant ex_polytope = Inr ex_c1"
  by (simp add: state_poly_constraint_eq ex_plant_def ex_polytope_def ex_c1_def)

text \<open>
  C7. \<^verbatim>\<open>state_poly_constraint\<close> returns the linear descriptor with matrix \<open>[A | 0]\<close>,
  the zero block \<open>ninputs\<close> wide, lower bounds all \<open>-\<infinity>\<close> and upper bounds \<open>b\<close>;
  \<^verbatim>\<open>input_poly_constraint\<close> returns the one with matrix \<open>[0 | A]\<close>, the zero block
  \<open>nstates\<close> wide, and the same bounds.
\<close>

theorem poly_constraint_descriptors:
  "state_poly_constraint sys p =
     Inr (LinearConstraint,
          Matrix \<lparr>ncols = ncols (poly_A p) + ninputs sys,
                  rows = map (\<lambda>r. r @ replicate (ninputs sys) 0) (rows (poly_A p))\<rparr>,
          replicate (length (rows (poly_A p))) NegInf, poly_b p)
   \<and> input_poly_constraint sys p =
     Inr (LinearConstraint,
          Matrix \<lparr>ncols = nstates sys + ncols (poly_A p),
                  rows = map (\<lambda>r. replicate (nstates sys) 0 @ r) (rows (poly_A p))\<rparr>,
          replicate (length (rows (poly_A p))) NegInf, poly_b p)"
  by (simp add: state_poly_constraint_eq input_poly_constraint_eq)

theorem poly_constraint_descriptors_witness:
  "state_poly_constraint ex_plant ex_polytope =
     Inr (LinearConstraint, Matrix \<lparr>ncols = 2, rows = [[1, 0]]\<rparr>, [NegInf], [Num 5])
   \<and> input_poly_constraint ex_plant ex_polytope =
     Inr (LinearConstraint, Matrix \<lparr>ncols = 2, rows = [[0, 1]]\<rparr>, [NegInf], [Num 5])"
  using poly_constraint_descriptors [of ex_plant ex_polytope]
  by (simp add: ex_plant_def ex_polytope_def)

section \<open>The unknown-constraint-type error\<close>

lemma eval_constraint_unknown:
  "c_type c \<noteq> LinearConstraint \<Longrightarrow> c_type c \<noteq> NonlinearConstraint \<Longrightarrow>
     eval_constraint c st inp i = Inl (TypeError (''unknown constraint type '' @ str (c_type c)))"
  by (cases c) (simp add: eval_constraint_def c_type_def)

lemma point_no_TypeError: "point st inp i \<noteq> Inl (TypeError m)"
  by (auto simp: point_def column_def hstack_def bind_exn_def split: option.splits)

lemma dot_no_TypeError: "dot a z \<noteq> Inl (TypeError m)"
  by (simp add: dot_def)

lemma eval_linear_matrix_no_TypeError:
  "eval_constraint (LinearConstraint, Matrix a, lb, ub) st inp i \<noteq> Inl (TypeError m)"
  using point_no_TypeError [of st inp i m] dot_no_TypeError [of a _ m]
  by (cases "point st inp i") (simp_all add: eval_constraint_def np_dot_def)

lemma factory_made_no_TypeError:
  assumes "factory_made c"
  shows "eval_constraint c st inp i \<noteq> Inl (TypeError m)"
  using assms
proof cases
  case (from_state_poly sys polytope)
  then show ?thesis
    by (auto simp: state_poly_constraint_eq eval_linear_matrix_no_TypeError)
next
  case (from_input_poly sys polytope)
  then show ?thesis
    by (auto simp: input_poly_constraint_eq eval_linear_matrix_no_TypeError)
next
  case (from_output_poly sys polytope)
  show ?thesis
    using point_no_TypeError [of st inp i m]
    by (cases "point st inp i")
       (simp_all add: from_output_poly output_poly_constraint_def eval_constraint_def
          call_fun_def evaluate_output_constraint_def dot_no_TypeError)
qed

lemma hstack_no_TypeError: "hstack vs \<noteq> Inl (TypeError m)"
  by (simp add: hstack_def)

lemma set_evaluation_order:
  "(c, i) \<in> set (evaluation_order self) \<Longrightarrow>
     c \<in> set (trajectory_constraints self @ terminal_constraints self)"
  by (auto simp: evaluation_order_def Let_def)

text \<open>
  C8. Once the simulation has returned: if every descriptor visited before some
  descriptor evaluates without an exception and that descriptor's tag is neither
  \<^verbatim>\<open>LinearConstraint\<close> nor \<^verbatim>\<open>NonlinearConstraint\<close>, then
  \<^verbatim>\<open>constraint_function\<close> raises the unknown-constraint-type error; and if all
  descriptors come from the factories, it raises no \<^verbatim>\<open>TypeError\<close> at all.
\<close>

theorem unknown_constraint_kind:
  assumes "self_x self = Some x0"
    and "reshape u (ninputs (system self), length (time_vector self)) = Inr inp"
    and "simulate (system self) (time_vector self) inp x0 = Inr st"
  shows "(\<forall>pre c i post.
            evaluation_order self = pre @ (c, i) # post
            \<and> (\<forall>(d, j) \<in> set pre. \<exists>v. eval_constraint d st inp j = Inr v)
            \<and> c_type c \<noteq> LinearConstraint \<and> c_type c \<noteq> NonlinearConstraint
          \<longrightarrow> constraint_function self u =
                Inl (TypeError (''unknown constraint type '' @ str (c_type c))))
       \<and> ((\<forall>c \<in> set (trajectory_constraints self @ terminal_constraints self).
              factory_made c)
          \<longrightarrow> (\<forall>m. constraint_function self u \<noteq> Inl (TypeError m)))"
proof (intro conjI allI impI)
  fix pre c i post
  assume h: "evaluation_order self = pre @ (c, i) # post
            \<and> (\<forall>(d, j) \<in> set pre. \<exists>v. eval_constraint d st inp j = Inr v)
            \<and> c_type c \<noteq> LinearConstraint \<and> c_type c \<noteq> NonlinearConstraint"
  let ?ev = "\<lambda>(c, i). eval_constraint c st inp i"
  have "\<forall>r \<in> set (map ?ev pre). \<exists>v. r = Inr v"
    using h by auto
  then obtain vs where vs: "collect (map ?ev pre) = Inr vs"
    using collect_all_Inr by blast
  have "collect (map ?ev (evaluation_order self))
      = Inl (TypeError (''unknown constraint type '' @ str (c_type c)))"
    using h vs by (simp add: collect_append eval_constraint_unknown)
  then show "constraint_function self u =
      Inl (TypeError (''unknown constraint type '' @ str (c_type c)))"
    by (simp add: constraint_function_steps [OF assms])
next
  fix m
  assume fm: "\<forall>c \<in> set (trajectory_constraints self @ terminal_constraints self).
                factory_made c"
  let ?ev = "\<lambda>(c, i). eval_constraint c st inp i"
  show "constraint_function self u \<noteq> Inl (TypeError m)"
  proof
    assume bad: "constraint_function self u = Inl (TypeError m)"
    then have "collect (map ?ev (evaluation_order self)) = Inl (TypeError m)"
      by (cases "collect (map ?ev (evaluation_order self))")
         (simp_all add: constraint_function_steps [OF assms] hstack_no_TypeError)
    then have "Inl (TypeError m) \<in> set (map ?ev (evaluation_order self))"
      by (rule collect_error_mem)
    then obtain c i where "(c, i) \<in> set (evaluation_order self)"
      and "eval_constraint c st inp i = Inl (TypeError m)"
      by auto
    then show False
      using fm set_evaluation_order factory_made_no_TypeError by blast
  qed
qed

theorem unknown_constraint_kind_witness:
  "constraint_function
     (ex_problem\<lparr>trajectory_constraints := [ex_c1, ex_unknown], self_x := Some [1]\<rparr>) [2, 3]
     = Inl (TypeError ''unknown constraint type str'')
   \<and> (\<forall>m. constraint_function
            (ex_problem\<lparr>trajectory_constraints := [ex_c1],
               terminal_constraints := [output_poly_constraint ex_plant ex_polytope],
               self_x := Some [1]\<rparr>) [2, 3] \<noteq> Inl (TypeError m))"
proof -
  let ?inp = "\<lparr>ncols = 2, rows = [[2, 3 :: real]]\<rparr>"
  let ?st = "\<lparr>ncols = 2, rows = [[3, 4 :: real]]\<rparr>"
  let ?bad = "ex_problem\<lparr>trajectory_constraints := [ex_c1, ex_unknown], self_x := Some [1]\<rparr>"
  let ?good = "ex_problem\<lparr>trajectory_constraints := [ex_c1],
               terminal_constraints := [output_poly_constraint ex_plant ex_polytope],
               self_x := Some [1]\<rparr>"
  have order: "evaluation_order ?bad =
      [(ex_c1, Some 0)] @ (ex_unknown, Some 0)
        # [(ex_c1, Some 1), (ex_unknown, Some 1), (ex_t1, Some 1)]"
    by (simp add: evaluation_order_def ex_problem_def upt_conv_Cons numeral_2_eq_2)
  have pre: "\<forall>(d, j) \<in> set [(ex_c1, Some 0)]. \<exists>v. eval_constraint d ?st ?inp j = Inr v"
    by (simp add: eval_constraint_def point_def column_def hstack_def np_dot_def dot_def
          ex_c1_def)
  have tag: "c_type ex_unknown \<noteq> LinearConstraint" "c_type ex_unknown \<noteq> NonlinearConstraint"
    by (simp_all add: c_type_def ex_unknown_def)
  have bad_x: "self_x ?bad = Some [1]"
    by simp
  have bad_r: "reshape [2, 3] (ninputs (system ?bad), length (time_vector ?bad)) = Inr ?inp"
    by (simp add: ex_problem_def ex_plant_def reshape_def numeral_2_eq_2)
  have bad_s: "simulate (system ?bad) (time_vector ?bad) ?inp [1] = Inr ?st"
    by (simp add: ex_problem_def ex_plant_def)
  have "constraint_function ?bad [2, 3]
      = Inl (TypeError (''unknown constraint type '' @ str (c_type ex_unknown)))"
  proof (rule unknown_constraint_kind [OF bad_x bad_r bad_s, THEN conjunct1, rule_format])
    show "evaluation_order ?bad =
        [(ex_c1, Some 0)] @ (ex_unknown, Some 0)
          # [(ex_c1, Some 1), (ex_unknown, Some 1), (ex_t1, Some 1)]
      \<and> (\<forall>(d, j) \<in> set [(ex_c1, Some 0)]. \<exists>v. eval_constraint d ?st ?inp j = Inr v)
      \<and> c_type ex_unknown \<noteq> LinearConstraint \<and> c_type ex_unknown \<noteq> NonlinearConstraint"
      using order pre tag by blast
  qed
  then have bad: "constraint_function ?bad [2, 3]
      = Inl (TypeError ''unknown constraint type str'')"
    by (simp add: c_type_def ex_unknown_def)
  have fm: "\<forall>c \<in> set ([ex_c1] @ [output_poly_constraint ex_plant ex_polytope]). factory_made c"
    using from_state_poly [OF ex_state_poly] from_output_poly [of ex_plant ex_polytope]
    by simp
  have good_x: "self_x ?good = Some [1]"
    by simp
  have good_r: "reshape [2, 3] (ninputs (system ?good), length (time_vector ?good)) = Inr ?inp"
    by (simp add: ex_problem_def ex_plant_def reshape_def numeral_2_eq_2)
  have good_s: "simulate (system ?good) (time_vector ?good) ?inp [1] = Inr ?st"
    by (simp add: ex_problem_def ex_plant_def)
  have "\<forall>c \<in> set (trajectory_constraints ?good @ terminal_constraints ?good). factory_made c"
    using fm by simp
  then have good: "\<forall>m. constraint_function ?good [2, 3] \<noteq> Inl (TypeError m)"
    using unknown_constraint_kind [OF good_x good_r good_s] by blast
  show ?thesis
    using bad good by blast
qed

section \<open>Cost evaluation\<close>

lemma cost_loop_sum:
  assumes "\<forall>(i, t) \<in> set its. i < ncols st \<and> i < ncols inp"
  shows "cost_loop its L st inp c =
           Inr (c + sum_list (map (\<lambda>(i, t). L (col st i) (col inp i)) its))"
  using assms
  by (induction its arbitrary: c) (auto simp: column_def col_def)

lemma cost_loop_enumerate:
  assumes "ncols st = length ts" and "ncols inp = length ts"
  shows "cost_loop (enumerate 0 ts) L st inp 0 =
           Inr (\<Sum>k = 0..<length ts. L (col st k) (col inp k))"
proof -
  have "\<forall>(i, t) \<in> set (enumerate 0 ts). i < ncols st \<and> i < ncols inp"
    by (auto simp: in_set_enumerate_eq assms)
  then have "cost_loop (enumerate 0 ts) L st inp 0 =
      Inr (0 + sum_list (map (\<lambda>(i, t). L (col st i) (col inp i)) (enumerate 0 ts)))"
    by (rule cost_loop_sum)
  also have "map (\<lambda>(i, t). L (col st i) (col inp i)) (enumerate 0 ts)
      = map (\<lambda>k. L (col st k) (col inp k)) [0..<length ts]"
    using map_enumerate [of "\<lambda>k. L (col st k) (col inp k)" 0 ts] by simp
  finally show ?thesis
    by (simp add: interv_sum_list_conv_sum_set_nat)
qed

text \<open>
  C4. Without a terminal cost \<^verbatim>\<open>cost_function\<close> returns the sum over the \<open>N\<close> time
  points of the running cost at the simulated state and the input of that point; with a
  terminal cost \<open>T\<close> (and a non-empty grid) it returns that sum plus \<open>T\<close> at the state
  and input of the last point.
\<close>

theorem cost_function_sum:
  assumes "self_x self = Some x0"
    and "reshape u (ninputs (system self), length (time_vector self)) = Inr inp"
    and "simulate (system self) (time_vector self) inp x0 = Inr st"
    and "ncols st = length (time_vector self)"
  shows "(terminal_cost self = None \<longrightarrow>
            cost_function self u =
              Inr (\<Sum>k = 0..<length (time_vector self).
                     integral_cost self (col st k) (col inp k)))
       \<and> (\<forall>T. terminal_cost self = Some T \<and> time_vector self \<noteq> [] \<longrightarrow>
            cost_function self u =
              Inr ((\<Sum>k = 0..<length (time_vector self).
                      integral_cost self (col st k) (col inp k))
                   + T (col st (length (time_vector self) - 1))
                       (col inp (length (time_vector self) - 1))))"
proof -
  have inp: "ncols inp = length (time_vector self)"
    using reshape_shape [OF assms(2)] by simp
  note loop = cost_loop_enumerate [OF assms(4) inp, of "integral_cost self"]
  show ?thesis
    by (auto simp: cost_function_def assms(1,2,3) loop last_column_col assms(4) inp)
qed

theorem cost_function_sum_witness:
  "cost_function (ex_problem\<lparr>terminal_cost := None, self_x := Some [1]\<rparr>) [2, 3] = Inr 38
   \<and> cost_function (ex_problem\<lparr>self_x := Some [1]\<rparr>) [2, 3] = Inr (38 + ex_cost [4] [3])"
proof -
  let ?inp = "\<lparr>ncols = 2, rows = [[2, 3 :: real]]\<rparr>"
  let ?st = "\<lparr>ncols = 2, rows = [[3, 4 :: real]]\<rparr>"
  have sum: "(\<Sum>k = 0..<length [0, 1 :: real]. ex_cost (col ?st k) (col ?inp k)) = 38"
    by (simp add: ex_cost_def col_def numeral_2_eq_2)
  have "cost_function (ex_problem\<lparr>terminal_cost := None, self_x := Some [1]\<rparr>) [2, 3] = Inr 38"
    using cost_function_sum [of "ex_problem\<lparr>terminal_cost := None, self_x := Some [1]\<rparr>"
        "[1]" "[2, 3]" ?inp ?st] ex_reshape' ex_simulate sum
    by (simp add: ex_problem_def)
  moreover have "cost_function (ex_problem\<lparr>self_x := Some [1]\<rparr>) [2, 3]
      = Inr (38 + ex_cost [4] [3])"
    using cost_function_sum [of "ex_problem\<lparr>self_x := Some [1]\<rparr>"
        "[1]" "[2, 3]" ?inp ?st] ex_reshape' ex_simulate sum
    by (simp add: ex_problem_def col_def)
  ultimately show ?thesis by simp
qed

section \<open>Trajectory optimization and the MPC step\<close>

lemma compute_trajectory_success:
  assumes "minimize (cost_function (self\<lparr>self_x := Some x\<rparr>)) (initial_guess self)
             (constraint_function (self\<lparr>self_x := Some x\<rparr>),
              fst (constraints self), snd (constraints self)) = Inr res"
    and "res_success res"
    and "reshape (res_x res) (ninputs (system self), length (time_vector self)) = Inr inp"
  shows "compute_trajectory minimize self x squeeze None None =
           (Inr (Some (None, Some inp)), self\<lparr>self_x := Some x\<rparr>, [])"
  using assms by (simp add: compute_trajectory_def Let_def process_time_response_def)

lemma compute_trajectory_failure:
  assumes "minimize (cost_function (self\<lparr>self_x := Some x\<rparr>)) (initial_guess self)
             (constraint_function (self\<lparr>self_x := Some x\<rparr>),
              fst (constraints self), snd (constraints self)) = Inr res"
    and "\<not> res_success res"
  shows "compute_trajectory minimize self x squeeze tr return_x =
           (Inr None, self\<lparr>self_x := Some x\<rparr>, [res_message res])"
  using assms by (simp add: compute_trajectory_def Let_def)

lemma mpc_raises_on_failure:
  assumes "minimize (cost_function (self\<lparr>self_x := Some x\<rparr>)) (initial_guess self)
             (constraint_function (self\<lparr>self_x := Some x\<rparr>),
              fst (constraints self), snd (constraints self)) = Inr res"
    and "\<not> res_success res"
  shows "mpc minimize self x squeeze =
           (Inl (TypeError ''cannot unpack non-iterable NoneType object''),
            self\<lparr>self_x := Some x\<rparr>, [res_message res])"
  using assms by (simp add: mpc_def compute_trajectory_failure)

text \<open>
  C6. When the solver succeeds, \<^verbatim>\<open>compute_trajectory\<close> returns the reshaped optimal
  point as the input trajectory (with no state trajectory), and \<^verbatim>\<open>mpc\<close> returns its
  first time sample; calling the problem is calling \<^verbatim>\<open>mpc\<close>, for every state.
\<close>

theorem mpc_first_sample:
  "(minimize (cost_function (self\<lparr>self_x := Some x\<rparr>)) (initial_guess self)
       (constraint_function (self\<lparr>self_x := Some x\<rparr>),
        fst (constraints self), snd (constraints self)) = Inr res
    \<and> res_success res
    \<and> reshape (res_x res) (ninputs (system self), length (time_vector self)) = Inr inp
    \<and> time_vector self \<noteq> []
    \<longrightarrow> compute_trajectory minimize self x squeeze None None =
          (Inr (Some (None, Some inp)), self\<lparr>self_x := Some x\<rparr>, [])
        \<and> mpc minimize self x squeeze =
          (Inr (Some (col inp 0)), self\<lparr>self_x := Some x\<rparr>, []))
   \<and> (\<forall>y sq. call minimize self y sq = mpc minimize self y sq)"
proof (intro conjI impI allI)
  assume h: "minimize (cost_function (self\<lparr>self_x := Some x\<rparr>)) (initial_guess self)
       (constraint_function (self\<lparr>self_x := Some x\<rparr>),
        fst (constraints self), snd (constraints self)) = Inr res
    \<and> res_success res
    \<and> reshape (res_x res) (ninputs (system self), length (time_vector self)) = Inr inp
    \<and> time_vector self \<noteq> []"
  then have ct: "compute_trajectory minimize self x squeeze None None =
          (Inr (Some (None, Some inp)), self\<lparr>self_x := Some x\<rparr>, [])"
    by (simp add: compute_trajectory_success)
  then show "compute_trajectory minimize self x squeeze None None =
          (Inr (Some (None, Some inp)), self\<lparr>self_x := Some x\<rparr>, [])" .
  have "ncols inp \<noteq> 0"
    using h reshape_shape [of "res_x res" _ _ inp] by auto
  then show "mpc minimize self x squeeze =
          (Inr (Some (col inp 0)), self\<lparr>self_x := Some x\<rparr>, [])"
    by (simp add: mpc_def ct getitem0_transpose)
next
  fix y sq
  show "call minimize self y sq = mpc minimize self y sq"
    by (simp add: call_def)
qed

theorem mpc_first_sample_witness:
  "compute_trajectory ex_minimize ex_problem [1] None None None =
     (Inr (Some (None, Some \<lparr>ncols = 2, rows = [[2, 3]]\<rparr>)), ex_problem\<lparr>self_x := Some [1]\<rparr>, [])
   \<and> mpc ex_minimize ex_problem [1] None = (Inr (Some [2]), ex_problem\<lparr>self_x := Some [1]\<rparr>, [])
   \<and> call ex_minimize ex_problem [1] None = mpc ex_minimize ex_problem [1] None"
  using mpc_first_sample [where minimize = ex_minimize and self = ex_problem and x = "[1]"
      and res = "\<lparr>res_success = True, res_message = ''Optimization terminated successfully'',
        res_x = [2, 3]\<rparr>" and inp = "\<lparr>ncols = 2, rows = [[2, 3]]\<rparr>" and squeeze = None]
    ex_reshape'
  by (simp add: ex_minimize_def ex_problem_def col_def)

text \<open>
  C3. On the example problem with a solver that reports failure,
  \<^verbatim>\<open>compute_trajectory\<close> warns and returns \<^verbatim>\<open>None\<close>, and \<^verbatim>\<open>mpc\<close> raises a
  \<^verbatim>\<open>TypeError\<close> when it unpacks that \<^verbatim>\<open>None\<close>.
\<close>

theorem mpc_raises_when_solver_fails:
  "compute_trajectory ex_minimize_failing ex_problem [1] None None None =
     (Inr None, ex_problem\<lparr>self_x := Some [1]\<rparr>, [''Iteration limit exceeded''])
   \<and> mpc ex_minimize_failing ex_problem [1] None =
     (Inl (TypeError ''cannot unpack non-iterable NoneType object''),
      ex_problem\<lparr>self_x := Some [1]\<rparr>, [''Iteration limit exceeded''])"
  by (simp add: mpc_def compute_trajectory_def Let_def ex_minimize_failing_def)

lemma compute_trajectory_state:
  "fst (snd (compute_trajectory minimize s x squeeze tr return_x)) = s\<lparr>self_x := Some x\<rparr>"
  by (simp add: compute_trajectory_def Let_def split: sum.splits)

lemma mpc_state:
  "fst (snd (mpc minimize s x squeeze)) = s\<lparr>self_x := Some x\<rparr>"
  using compute_trajectory_state [of minimize s x squeeze None None]
  by (auto simp: mpc_def split: prod.splits sum.splits option.splits)

text \<open>
  C9. Construction sets the all-zero initial guess of length \<open>ninputs * N\<close> and the
  constraint object holding the two stacked bound vectors. After
  \<^verbatim>\<open>compute_trajectory\<close>, \<^verbatim>\<open>mpc\<close> or a call of the problem, whatever the solver
  did, the object is the one before with only \<^verbatim>\<open>self.x\<close> set to the given state; and
  the outcome of a solve does not depend on the value \<^verbatim>\<open>self.x\<close> had before.
\<close>

theorem solve_only_sets_initial_state:
  "(init sys time L traj T tcons = Inr self \<longrightarrow>
      initial_guess self = replicate (ninputs sys * length time) 0
      \<and> constraints self = (constraint_lb self, constraint_ub self)
      \<and> self_x self = None)
   \<and> fst (snd (compute_trajectory minimize s x squeeze tr return_x)) = s\<lparr>self_x := Some x\<rparr>
   \<and> fst (snd (mpc minimize s x squeeze)) = s\<lparr>self_x := Some x\<rparr>
   \<and> fst (snd (call minimize s x squeeze)) = s\<lparr>self_x := Some x\<rparr>
   \<and> compute_trajectory minimize (s\<lparr>self_x := y\<rparr>) x squeeze tr return_x
       = compute_trajectory minimize s x squeeze tr return_x"
proof (intro conjI impI)
  assume "init sys time L traj T tcons = Inr self"
  note f = init_fields [OF this]
  show "initial_guess self = replicate (ninputs sys * length time) 0" by (rule f)
  show "constraints self = (constraint_lb self, constraint_ub self)" by (rule f)
  show "self_x self = None" by (rule f)
next
  show "fst (snd (compute_trajectory minimize s x squeeze tr return_x)) = s\<lparr>self_x := Some x\<rparr>"
    by (rule compute_trajectory_state)
  show "fst (snd (mpc minimize s x squeeze)) = s\<lparr>self_x := Some x\<rparr>"
    by (rule mpc_state)
  show "fst (snd (call minimize s x squeeze)) = s\<lparr>self_x := Some x\<rparr>"
    by (simp add: call_def mpc_state)
  show "compute_trajectory minimize (s\<lparr>self_x := y\<rparr>) x squeeze tr return_x
       = compute_trajectory minimize s x squeeze tr return_x"
    by (simp add: compute_trajectory_def)
qed

theorem solve_only_sets_initial_state_witness:
  "init ex_plant [0, 1] ex_cost [ex_c1, ex_c2] (Some ex_cost) [ex_t1] = Inr ex_problem
   \<and> initial_guess ex_problem = [0, 0]
   \<and> constraints ex_problem = (constraint_lb ex_problem, constraint_ub ex_problem)
   \<and> fst (snd (compute_trajectory ex_minimize ex_problem [1] None None None))
       = ex_problem\<lparr>self_x := Some [1]\<rparr>
   \<and> fst (snd (mpc ex_minimize_failing ex_problem [1] None)) = ex_problem\<lparr>self_x := Some [1]\<rparr>"
  using solve_only_sets_initial_state [where sys = ex_plant and time = "[0, 1]"
      and L = ex_cost and traj = "[ex_c1, ex_c2]" and T = "Some ex_cost" and tcons = "[ex_t1]"
      and self = ex_problem and minimize = ex_minimize and s = ex_problem and x = "[1]"
      and squeeze = None and tr = None and return_x = None]
    solve_only_sets_initial_state [where sys = ex_plant and time = "[0, 1]"
      and L = ex_cost and traj = "[ex_c1, ex_c2]" and T = "Some ex_cost" and tcons = "[ex_t1]"
      and self = ex_problem and minimize = ex_minimize_failing and s = ex_problem
      and x = "[1]" and squeeze = None]
    ex_init
  by (simp add: ex_plant_def numeral_2_eq_2)

end
